theory Spec2Isabelle
  imports Complex_Main
begin

section \<open>The tsunami alert dashboard (dashboard.py)\<close>

text \<open>
  A shallow embedding of \<^verbatim>\<open>src/dashboard/dashboard.py\<close>: the data store of
  \<^verbatim>\<open>UpdatingGraphFigure\<close> and the calibration, threshold and alarm logic of
  \<^verbatim>\<open>Dashboard\<close>.

  Python floats are modelled as \<^typ>\<open>real\<close>: exact arithmetic, neither rounding nor
  NaN nor infinities. Wall-clock readings (\<^verbatim>\<open>time.time() - self.init_time\<close>) are an
  explicit argument \<open>now\<close> of every method that reads the clock. Widgets are left
  out; the status line is kept as a value of type \<open>status\<close>.
\<close>

subsection \<open>Python list indexing\<close>

datatype py_error = IndexError | ZeroDivisionError | TypeError

text \<open>\<^verbatim>\<open>xs[i]\<close>: a negative index counts from the end; \<open>None\<close> stands for IndexError.\<close>

definition py_index :: "'a list \<Rightarrow> int \<Rightarrow> 'a option" where
  "py_index xs i =
     (if 0 \<le> i \<and> i < int (length xs) then Some (xs ! nat i)
      else if i < 0 \<and> - int (length xs) \<le> i then Some (xs ! nat (int (length xs) + i))
      else None)"

text \<open>The position that \<^verbatim>\<open>xs[i] = v\<close> or \<^verbatim>\<open>xs[i].append(v)\<close> touches.\<close>

definition py_pos :: "'a list \<Rightarrow> int \<Rightarrow> nat" where
  "py_pos xs i = (if i < 0 then nat (int (length xs) + i) else nat i)"

subsection \<open>The data store of UpdatingGraphFigure\<close>

text \<open>
  The parallel lists of \<^verbatim>\<open>UpdatingGraphFigure\<close>: one entry per subplot in each of
  \<open>axes_list\<close>, \<open>x_points\<close> and \<open>y_points\<close>. A matplotlib Axes object is opaque here.
\<close>

record graph =
  axes_list :: "unit list"
  x_points :: "real list list"
  y_points :: "real list list"
  x_center :: real

text \<open>
  \<^verbatim>\<open>UpdatingGraphFigure(root, 1, n)\<close> for \<open>n \<ge> 2\<close>: \<^verbatim>\<open>create_subplots\<close> turns the array of \<open>n\<close>
  Axes into \<open>axes_list\<close> and appends an empty x and y list for each of them.
\<close>

definition new_graph :: "nat \<Rightarrow> graph" where
  "new_graph n =
     \<lparr>axes_list = replicate n (), x_points = replicate n [], y_points = replicate n [],
      x_center = 0\<rparr>"

definition get_subplot :: "graph \<Rightarrow> int \<Rightarrow> unit option" where
  "get_subplot g subplot_num = py_index (axes_list g) subplot_num"

text \<open>
  \<^verbatim>\<open>add_data_point\<close>: both lookups sit in one \<^verbatim>\<open>try\<close>, an IndexError of either returns
  without a change; otherwise both lists of the subplot grow by one element. There is
  no other check.
\<close>

definition add_data_point :: "graph \<Rightarrow> int \<Rightarrow> real \<Rightarrow> real \<Rightarrow> graph" where
  "add_data_point g subplot_num x y =
     (case py_index (x_points g) subplot_num of
        None \<Rightarrow> g
      | Some x_data \<Rightarrow>
          (case py_index (y_points g) subplot_num of
             None \<Rightarrow> g
           | Some y_data \<Rightarrow>
               g\<lparr>x_points := (x_points g)[py_pos (x_points g) subplot_num := x_data @ [x]],
                 y_points := (y_points g)[py_pos (y_points g) subplot_num := y_data @ [y]]\<rparr>))"

text \<open>\<^verbatim>\<open>get_data_point\<close> returns the pair \<^verbatim>\<open>(None, None)\<close> on an IndexError.\<close>

definition get_data_point :: "graph \<Rightarrow> int \<Rightarrow> int \<Rightarrow> real option \<times> real option" where
  "get_data_point g subplot_num point_index =
     (case py_index (x_points g) subplot_num of
        None \<Rightarrow> (None, None)
      | Some xs \<Rightarrow>
          (case py_index xs point_index of
             None \<Rightarrow> (None, None)
           | Some x_point \<Rightarrow>
               (case py_index (y_points g) subplot_num of
                  None \<Rightarrow> (None, None)
                | Some ys \<Rightarrow>
                    (case py_index ys point_index of
                       None \<Rightarrow> (None, None)
                     | Some y_point \<Rightarrow> (Some x_point, Some y_point)))))"

text \<open>
  The \<^verbatim>\<open>while True\<close> loop of \<^verbatim>\<open>get_data_within_last_x\<close>: it reads the points at
  \<open>-index\<close>, stops at an IndexError or at the first x below \<open>min_x\<close>, and appends the
  point to the two result lists otherwise.
\<close>

function within_last_x_loop ::
  "real list \<Rightarrow> real list \<Rightarrow> real \<Rightarrow> int \<Rightarrow> real list \<Rightarrow> real list \<Rightarrow> real list \<times> real list"
where
  "within_last_x_loop subplot_x_points subplot_y_points min_x index
       x_within_boundaries y_within_boundaries =
     (case py_index subplot_x_points (- index) of
        None \<Rightarrow> (x_within_boundaries, y_within_boundaries)
      | Some x_point \<Rightarrow>
          (case py_index subplot_y_points (- index) of
             None \<Rightarrow> (x_within_boundaries, y_within_boundaries)
           | Some y_point \<Rightarrow>
               if x_point < min_x then (x_within_boundaries, y_within_boundaries)
               else within_last_x_loop subplot_x_points subplot_y_points min_x (index + 1)
                      (x_within_boundaries @ [x_point]) (y_within_boundaries @ [y_point])))"
  by pat_completeness auto
termination
  by (relation "measure (\<lambda>(xs, ys, m, index, ax, ay). nat (int (length xs) + 1 - index))")
     (auto simp: py_index_def split: if_splits)

text \<open>
  \<^verbatim>\<open>get_data_within_last_x\<close>: Python's \<open>None\<close> for a missing subplot is the inner
  \<open>None\<close>; an IndexError of \<^verbatim>\<open>self.x_points[subplot_num]\<close> is not caught.
\<close>

definition get_data_within_last_x ::
  "graph \<Rightarrow> int \<Rightarrow> real \<Rightarrow> py_error + (real list \<times> real list) option" where
  "get_data_within_last_x g subplot_num min_x =
     (case get_subplot g subplot_num of
        None \<Rightarrow> Inr None
      | Some subplot \<Rightarrow>
          (case py_index (x_points g) subplot_num of
             None \<Rightarrow> Inl IndexError
           | Some subplot_x_points \<Rightarrow>
               (case py_index (y_points g) subplot_num of
                  None \<Rightarrow> Inl IndexError
                | Some subplot_y_points \<Rightarrow>
                    Inr (Some (within_last_x_loop subplot_x_points subplot_y_points
                                 min_x 1 [] [])))))"

text \<open>Appending a sequence of samples \<open>(x, y)\<close> to one subplot, in order.\<close>

fun add_data_points :: "graph \<Rightarrow> int \<Rightarrow> (real \<times> real) list \<Rightarrow> graph" where
  "add_data_points g subplot_num [] = g"
| "add_data_points g subplot_num ((x, y) # samples) =
     add_data_points (add_data_point g subplot_num x y) subplot_num samples"

subsection \<open>The water-height model\<close>

text \<open>
  \<^verbatim>\<open>Dashboard.calculate_water_height\<close>, with \<^verbatim>\<open>self.calibrated_air_pressure\<close> as the
  first argument. The method is only called when that field is not None.
\<close>

definition WATER_DENSITY :: real where
  "WATER_DENSITY = 997"

definition GRAVITY_FORCE :: real where
  "GRAVITY_FORCE = 9.81"

definition calculate_water_height :: "real \<Rightarrow> real \<Rightarrow> real" where
  "calculate_water_height calibrated_air_pressure pressure =
     (let water_height =
            ((pressure - calibrated_air_pressure) * 100) / (WATER_DENSITY * GRAVITY_FORCE)
      in if water_height < 0 then 0 else water_height * 100)"

subsection \<open>The state of the Dashboard\<close>

text \<open>The messages of the status line, with the number a message formats.\<close>

datatype status =
    ConnectToStart
  | AirPressureLackOfData
  | AirPressureCalibrated real
  | StandingHeightLackOfData
  | StandingHeightCalibrated real
  | ThresholdNeedsStandingHeight
  | ThresholdMustBeFloat
  | ThresholdMustBeGreaterThan0
  | ThresholdSetTo real
  | AlarmActivatedMessage
  | AlarmResetMessage

text \<open>The three displays of \<^verbatim>\<open>change_alarm_status\<close>.\<close>

datatype alarm_display = NotReady | Ready | Activated

text \<open>
  The fields of \<^verbatim>\<open>Dashboard.__init__\<close>. Two fields record effects: \<open>alarms_dispatched\<close>
  counts the threads started on \<^verbatim>\<open>send_alarm\<close>, and \<open>popups\<close> lists the readings that
  \<^verbatim>\<open>alarm_pop_up\<close> has formatted.
\<close>

record dashboard =
  graph :: graph
  pressure_data :: "real list \<times> real list"
  calibrated_air_pressure :: "real option"
  standing_water_level :: "real option"
  standing_water_air_pressure :: "real option"
  alarm_threshold :: "real option"
  data_period_var :: int
  alarm_sent :: bool
  alarm_cooldown :: bool
  pressure_on_alarm_activate :: "real option"
  wave_height_on_alarm_activate :: "real option"
  status_var :: status
  alarm_status :: alarm_display
  alarms_dispatched :: nat
  popups :: "(real \<times> real) list"

definition init_dashboard :: dashboard where
  "init_dashboard =
     \<lparr>graph = new_graph 2, pressure_data = ([], []),
      calibrated_air_pressure = None, standing_water_level = None,
      standing_water_air_pressure = None, alarm_threshold = None,
      data_period_var = 15, alarm_sent = False, alarm_cooldown = False,
      pressure_on_alarm_activate = None, wave_height_on_alarm_activate = None,
      status_var = ConnectToStart, alarm_status = NotReady,
      alarms_dispatched = 0, popups = []\<rparr>"

subsection \<open>New samples and the alarm latch\<close>

text \<open>
  \<^verbatim>\<open>new_pressure_data\<close>; \<open>now\<close> is \<^verbatim>\<open>time.time() - self.init_time\<close>. Starting the
  thread on \<^verbatim>\<open>send_alarm\<close> increments \<open>alarms_dispatched\<close>.
\<close>

definition new_pressure_data :: "dashboard \<Rightarrow> real \<Rightarrow> real \<Rightarrow> dashboard" where
  "new_pressure_data s now pressure =
     (let s1 = s\<lparr>pressure_data :=
                    (fst (pressure_data s) @ [now], snd (pressure_data s) @ [pressure]),
                  graph := add_data_point (graph s) 0 now pressure\<rparr>
      in case calibrated_air_pressure s1 of
           None \<Rightarrow> s1
         | Some air \<Rightarrow>
             (let water_height = calculate_water_height air pressure;
                  s2 = s1\<lparr>graph := add_data_point (graph s1) 1 now water_height\<rparr>
              in case standing_water_level s2 of
                   None \<Rightarrow> s2
                 | Some level \<Rightarrow>
                     (case alarm_threshold s2 of
                        None \<Rightarrow> s2
                      | Some threshold \<Rightarrow>
                          (let wave_height = water_height - level
                           in if wave_height > threshold \<and> alarm_sent s2 = False
                              then s2\<lparr>pressure_on_alarm_activate := Some pressure,
                                      wave_height_on_alarm_activate := Some wave_height,
                                      alarm_sent := True,
                                      alarms_dispatched := alarms_dispatched s2 + 1\<rparr>
                              else s2))))"

definition reset_alarm :: "dashboard \<Rightarrow> dashboard" where
  "reset_alarm s =
     s\<lparr>status_var := AlarmResetMessage, alarm_status := Ready,
       alarm_sent := False, alarm_cooldown := False,
       pressure_on_alarm_activate := None, wave_height_on_alarm_activate := None\<rparr>"

text \<open>Feeding a sequence of samples \<open>(now, pressure)\<close>, in order.\<close>

fun feed :: "dashboard \<Rightarrow> (real \<times> real) list \<Rightarrow> dashboard" where
  "feed s [] = s"
| "feed s ((now, pressure) # samples) = feed (new_pressure_data s now pressure) samples"

text \<open>
  \<^verbatim>\<open>reset_alarm\<close> is four separate assignments (\<^verbatim>\<open>alarm_sent\<close>, \<^verbatim>\<open>alarm_cooldown\<close>,
  \<^verbatim>\<open>pressure_on_alarm_activate\<close>, \<^verbatim>\<open>wave_height_on_alarm_activate\<close>, in this order) on the
  GUI thread, and nothing in the source keeps the data thread from calling
  \<^verbatim>\<open>new_pressure_data\<close> between two of them. The three arguments are the samples that
  arrive after the first, the second and the third assignment. The two display updates
  before the first assignment touch nothing that \<^verbatim>\<open>new_pressure_data\<close> reads or writes.
\<close>

definition reset_alarm_interleaved ::
  "dashboard \<Rightarrow> (real \<times> real) list \<Rightarrow> (real \<times> real) list \<Rightarrow> (real \<times> real) list \<Rightarrow> dashboard"
where
  "reset_alarm_interleaved s after_sent after_cooldown after_pressure =
     (let s0 = s\<lparr>status_var := AlarmResetMessage, alarm_status := Ready\<rparr>;
          s1 = feed (s0\<lparr>alarm_sent := False\<rparr>) after_sent;
          s2 = feed (s1\<lparr>alarm_cooldown := False\<rparr>) after_cooldown;
          s3 = feed (s2\<lparr>pressure_on_alarm_activate := None\<rparr>) after_pressure
      in s3\<lparr>wave_height_on_alarm_activate := None\<rparr>)"

text \<open>
  \<^verbatim>\<open>window_activate_alarm\<close> with \<^verbatim>\<open>alarm_pop_up\<close>: formatting None with \<^verbatim>\<open>{:.2f}\<close> raises
  TypeError.
\<close>

definition window_activate_alarm :: "dashboard \<Rightarrow> py_error + dashboard" where
  "window_activate_alarm s =
     (let s1 = s\<lparr>status_var := AlarmActivatedMessage, alarm_status := Activated\<rparr>
      in case pressure_on_alarm_activate s1 of
           None \<Rightarrow> Inl TypeError
         | Some pressure \<Rightarrow>
             (case wave_height_on_alarm_activate s1 of
                None \<Rightarrow> Inl TypeError
              | Some wave_height \<Rightarrow> Inr (s1\<lparr>popups := popups s1 @ [(pressure, wave_height)]\<rparr>)))"

subsection \<open>Calibration\<close>

text \<open>\<^verbatim>\<open>sum(points) / len(points)\<close>, which raises ZeroDivisionError on an empty list.\<close>

definition py_mean :: "real list \<Rightarrow> py_error + real" where
  "py_mean points =
     (if length points = 0 then Inl ZeroDivisionError
      else Inr (sum_list points / real (length points)))"

text \<open>The \<^verbatim>\<open>while True\<close> loop of \<^verbatim>\<open>calibrate_air_pressure\<close>.\<close>

function air_pressure_loop :: "graph \<Rightarrow> real \<Rightarrow> real \<Rightarrow> int \<Rightarrow> real list \<Rightarrow> real list" where
  "air_pressure_loop g time_since_init len index pressure_data_points =
     (case get_data_point g 0 (- index) of
        (Some time_recorded, Some pressure_recorded) \<Rightarrow>
          if time_since_init - time_recorded \<le> len
          then air_pressure_loop g time_since_init len (index + 1)
                 (pressure_data_points @ [pressure_recorded])
          else pressure_data_points
      | _ \<Rightarrow> pressure_data_points)"
  by pat_completeness auto
termination
  by (relation "measure (\<lambda>(g, now, len, index, acc).
         case py_index (x_points g) 0 of
           None \<Rightarrow> 0
         | Some xs \<Rightarrow> nat (int (length xs) + 1 - index))")
     (auto simp: get_data_point_def py_index_def split: option.splits if_splits)

definition calibrate_air_pressure :: "dashboard \<Rightarrow> real \<Rightarrow> real \<Rightarrow> dashboard" where
  "calibrate_air_pressure s now len =
     (case py_mean (air_pressure_loop (graph s) now len 1 []) of
        Inl e \<Rightarrow> s\<lparr>status_var := AirPressureLackOfData\<rparr>
      | Inr mean \<Rightarrow>
          s\<lparr>calibrated_air_pressure := Some mean, status_var := AirPressureCalibrated mean\<rparr>)"

text \<open>Unpacking \<^verbatim>\<open>xs, ys = self.graph.get_data_within_last_x(...)\<close>: None does not unpack.\<close>

definition unpack_window ::
  "py_error + (real list \<times> real list) option \<Rightarrow> py_error + real list \<times> real list" where
  "unpack_window r =
     (case r of
        Inl e \<Rightarrow> Inl e
      | Inr None \<Rightarrow> Inl TypeError
      | Inr (Some w) \<Rightarrow> Inr w)"

text \<open>
  \<^verbatim>\<open>calibrate_swh\<close>: the two assignments sit in one \<^verbatim>\<open>try\<close>, the standing water level
  first; a ZeroDivisionError of the second leaves the first assignment in place.
\<close>

definition calibrate_swh :: "dashboard \<Rightarrow> real \<Rightarrow> real \<Rightarrow> py_error + dashboard" where
  "calibrate_swh s now len =
     (case unpack_window (get_data_within_last_x (graph s) 0 (now - len)) of
        Inl e \<Rightarrow> Inl e
      | Inr (x_points0, pressure_data_points) \<Rightarrow>
          (case unpack_window (get_data_within_last_x (graph s) 1 (now - len)) of
             Inl e \<Rightarrow> Inl e
           | Inr (x_points1, water_height_data_points) \<Rightarrow>
               (case py_mean water_height_data_points of
                  Inl e \<Rightarrow> Inr (s\<lparr>status_var := StandingHeightLackOfData\<rparr>)
                | Inr level \<Rightarrow>
                    (let s1 = s\<lparr>standing_water_level := Some level\<rparr>
                     in case py_mean pressure_data_points of
                          Inl e \<Rightarrow> Inr (s1\<lparr>status_var := StandingHeightLackOfData\<rparr>)
                        | Inr mean \<Rightarrow>
                            Inr (s1\<lparr>standing_water_air_pressure := Some mean,
                                    status_var := StandingHeightCalibrated level\<rparr>)))))"

text \<open>
  \<^verbatim>\<open>calibrate_swh\<close> with the calls of \<^verbatim>\<open>new_pressure_data\<close> that the data thread makes
  while it runs: after the window query of the pressure subplot, after the window
  query of the water-height subplot, and after the assignment of the standing water
  level.
\<close>

definition calibrate_swh_interleaved ::
  "dashboard \<Rightarrow> real \<Rightarrow> real \<Rightarrow> (real \<times> real) list \<Rightarrow> (real \<times> real) list
     \<Rightarrow> (real \<times> real) list \<Rightarrow> py_error + dashboard"
where
  "calibrate_swh_interleaved s now len after_pressure_query after_height_query after_level =
     (case unpack_window (get_data_within_last_x (graph s) 0 (now - len)) of
        Inl e \<Rightarrow> Inl e
      | Inr (x_points0, pressure_data_points) \<Rightarrow>
          (let s1 = feed s after_pressure_query
           in case unpack_window (get_data_within_last_x (graph s1) 1 (now - len)) of
                Inl e \<Rightarrow> Inl e
              | Inr (x_points1, water_height_data_points) \<Rightarrow>
                  (let s2 = feed s1 after_height_query
                   in case py_mean water_height_data_points of
                        Inl e \<Rightarrow> Inr (s2\<lparr>status_var := StandingHeightLackOfData\<rparr>)
                      | Inr level \<Rightarrow>
                          (let s3 = feed (s2\<lparr>standing_water_level := Some level\<rparr>) after_level
                           in case py_mean pressure_data_points of
                                Inl e \<Rightarrow> Inr (s3\<lparr>status_var := StandingHeightLackOfData\<rparr>)
                              | Inr mean \<Rightarrow>
                                  Inr (s3\<lparr>standing_water_air_pressure := Some mean,
                                          status_var := StandingHeightCalibrated level\<rparr>)))))"

subsection \<open>The alarm threshold\<close>

text \<open>
  \<^verbatim>\<open>set_alarm_threshold\<close>. The argument \<open>entered\<close> is the outcome of
  \<^verbatim>\<open>float(self.alarm_threshold_var.get())\<close>: \<open>None\<close> for a ValueError, the number
  otherwise.
\<close>

definition set_alarm_threshold :: "dashboard \<Rightarrow> real option \<Rightarrow> dashboard" where
  "set_alarm_threshold s entered =
     (if standing_water_level s = None then s\<lparr>status_var := ThresholdNeedsStandingHeight\<rparr>
      else case entered of
             None \<Rightarrow> s\<lparr>status_var := ThresholdMustBeFloat\<rparr>
           | Some threshold \<Rightarrow>
               if threshold < 0 then s\<lparr>status_var := ThresholdMustBeGreaterThan0\<rparr>
               else s\<lparr>alarm_threshold := Some threshold,
                      status_var := ThresholdSetTo threshold, alarm_status := Ready\<rparr>)"

subsection \<open>Statistics\<close>

text \<open>\<^verbatim>\<open>number / max\<close>, which raises ZeroDivisionError for a zero divisor.\<close>

definition py_div :: "real \<Rightarrow> real \<Rightarrow> py_error + real" where
  "py_div a b = (if b = 0 then Inl ZeroDivisionError else Inr (a / b))"

definition get_number_color :: "real \<Rightarrow> real \<Rightarrow> py_error + string" where
  "get_number_color number mx =
     (if mx = 0 then Inr ''#E4FDE1''
      else case py_div number mx of
             Inl e \<Rightarrow> Inl e
           | Inr ratio \<Rightarrow>
               if ratio > 1 then Inr ''#FB363A''
               else if ratio > 0.75 then Inr ''#F97E36''
               else if ratio > 0.5 then Inr ''#E8E055''
               else Inr ''#41D3BD'')"

text \<open>What \<^verbatim>\<open>update_statistics\<close> computes for the water-height displays.\<close>

record water_statistics =
  max_wave_height :: "real option"
  current_wave_height :: "real option"
  max_water_height :: "real option"
  min_water_height :: "real option"
  max_wave_height_color :: string
  current_wave_height_color :: string
  water_height_ylim :: "(real \<times> real) option"

definition water_height_graph_default_ylim :: "real \<times> real" where
  "water_height_graph_default_ylim = (0, 15)"

definition water_height_graph_ylim_buffer :: real where
  "water_height_graph_ylim_buffer = 2.5"

text \<open>
  The second half of \<^verbatim>\<open>update_statistics\<close>, from the window \<open>water_height_ys\<close> of the
  water-height subplot: \<^verbatim>\<open>max\<close> and \<^verbatim>\<open>min\<close> of the non-empty list are folds.
\<close>

definition water_height_statistics :: "dashboard \<Rightarrow> real list \<Rightarrow> py_error + water_statistics" where
  "water_height_statistics s water_height_ys =
     (let none = \<lparr>max_wave_height = None, current_wave_height = None,
                  max_water_height = None, min_water_height = None,
                  max_wave_height_color = ''#E4FDE1'', current_wave_height_color = ''#E4FDE1'',
                  water_height_ylim = None\<rparr>
      in case water_height_ys of
           [] \<Rightarrow> Inr none
         | y0 # rest \<Rightarrow>
             (let mn = fold min rest y0;
                  mx = fold max rest y0;
                  ylim_min = fst water_height_graph_default_ylim;
                  ylim_max = (if mx + water_height_graph_ylim_buffer
                                   > snd water_height_graph_default_ylim
                              then mx + water_height_graph_ylim_buffer
                              else snd water_height_graph_default_ylim);
                  st = none\<lparr>max_water_height := Some mx, min_water_height := Some mn,
                            water_height_ylim := Some (ylim_min, ylim_max)\<rparr>
              in case standing_water_level s of
                   None \<Rightarrow> Inr st
                 | Some level \<Rightarrow>
                     (let max_wave = (if mx - level < 0 then 0 else mx - level);
                          current_wave = (if y0 - level < 0 then 0 else y0 - level);
                          st1 = st\<lparr>max_wave_height := Some max_wave,
                                   current_wave_height := Some current_wave\<rparr>
                      in case alarm_threshold s of
                           None \<Rightarrow> Inr st1
                         | Some threshold \<Rightarrow>
                             (case get_number_color max_wave threshold of
                                Inl e \<Rightarrow> Inl e
                              | Inr c1 \<Rightarrow>
                                  (case get_number_color current_wave threshold of
                                     Inl e \<Rightarrow> Inl e
                                   | Inr c2 \<Rightarrow>
                                       Inr (st1\<lparr>max_wave_height_color := c1,
                                               current_wave_height_color := c2\<rparr>))))))"

definition update_statistics :: "dashboard \<Rightarrow> real \<Rightarrow> py_error + water_statistics" where
  "update_statistics s now =
     (case unpack_window
             (get_data_within_last_x (graph s) 0 (now - real_of_int (data_period_var s))) of
        Inl e \<Rightarrow> Inl e
      | Inr (pressure_xs, pressure_ys) \<Rightarrow>
          (case unpack_window
                  (get_data_within_last_x (graph s) 1 (now - real_of_int (data_period_var s))) of
             Inl e \<Rightarrow> Inl e
           | Inr (water_height_xs, water_height_ys) \<Rightarrow>
               water_height_statistics s water_height_ys))"

subsection \<open>One pass of the main loop\<close>

text \<open>
  The body of \<^verbatim>\<open>mainloop\<close> without the drawing: the statistics, then the check of the
  latch that opens the popup once per activation.
\<close>

definition mainloop_pass :: "dashboard \<Rightarrow> real \<Rightarrow> py_error + dashboard" where
  "mainloop_pass s now =
     (case update_statistics s now of
        Inl e \<Rightarrow> Inl e
      | Inr st \<Rightarrow>
          if alarm_cooldown s = False \<and> alarm_sent s = True
          then window_activate_alarm (s\<lparr>alarm_cooldown := True\<rparr>)
          else Inr s)"

subsection \<open>Schedules of the two threads\<close>

text \<open>
  \<^verbatim>\<open>main.py\<close> runs \<^verbatim>\<open>DataTransmitter.data_loop\<close>, which calls \<^verbatim>\<open>new_pressure_data\<close>, on
  a thread of its own, and the methods below on the GUI thread; the source has no lock.
  An action is one call on the GUI thread together with the samples that the data
  thread delivers inside it, or one sample delivered between two such calls. A call of
  \<^verbatim>\<open>new_pressure_data\<close> is one step here, and \<^verbatim>\<open>calibrate_air_pressure\<close>,
  \<^verbatim>\<open>set_alarm_threshold\<close> and a pass of the main loop take no sample inside them: every
  run of this model is a schedule of the program, and the program has further
  schedules.
\<close>

datatype action =
    NewPressure real real
  | ResetAlarm "(real \<times> real) list" "(real \<times> real) list" "(real \<times> real) list"
  | CalibrateAirPressure real real
  | CalibrateSwh real real "(real \<times> real) list" "(real \<times> real) list" "(real \<times> real) list"
  | SetAlarmThreshold "real option"
  | MainloopPass real

fun step :: "dashboard \<Rightarrow> action \<Rightarrow> py_error + dashboard" where
  "step s (NewPressure now pressure) = Inr (new_pressure_data s now pressure)"
| "step s (ResetAlarm after_sent after_cooldown after_pressure) =
     Inr (reset_alarm_interleaved s after_sent after_cooldown after_pressure)"
| "step s (CalibrateAirPressure now len) = Inr (calibrate_air_pressure s now len)"
| "step s (CalibrateSwh now len after_pressure_query after_height_query after_level) =
     calibrate_swh_interleaved s now len after_pressure_query after_height_query after_level"
| "step s (SetAlarmThreshold entered) = Inr (set_alarm_threshold s entered)"
| "step s (MainloopPass now) = mainloop_pass s now"

text \<open>An uncaught exception ends the run.\<close>

fun run :: "dashboard \<Rightarrow> action list \<Rightarrow> py_error + dashboard" where
  "run s [] = Inr s"
| "run s (a # as) = (case step s a of Inl e \<Rightarrow> Inl e | Inr s' \<Rightarrow> run s' as)"

section \<open>Properties\<close>

subsection \<open>Water height\<close>

lemma density_gravity_pos: "0 < WATER_DENSITY * GRAVITY_FORCE"
  by (simp add: WATER_DENSITY_def GRAVITY_FORCE_def)

lemma calculate_water_height_alt:
  "calculate_water_height b p =
     (if p < b then 0 else (p - b) * 10000 / (WATER_DENSITY * GRAVITY_FORCE))"
proof -
  have "((p - b) * 100 / (WATER_DENSITY * GRAVITY_FORCE) < 0) = (p < b)"
    using density_gravity_pos by (simp add: divide_less_0_iff)
  then show ?thesis
    by (simp add: calculate_water_height_def Let_def)
qed

lemma calculate_water_height_nonneg: "0 \<le> calculate_water_height b p"
  using density_gravity_pos
  by (simp add: calculate_water_height_alt zero_le_divide_iff)

text \<open>
  Claim C5. For every fixed baseline, \<open>calculate_water_height\<close> is monotonically
  non-decreasing in the pressure, and it returns exactly 0 for every pressure less than
  or equal to the baseline: a negative computed height is clamped to 0 and no result is
  negative.
\<close>

theorem calculate_water_height_mono_clamped:
  "(\<forall>p1 p2. p1 \<le> p2 \<longrightarrow> calculate_water_height b p1 \<le> calculate_water_height b p2)
   \<and> (\<forall>p. p \<le> b \<longrightarrow> calculate_water_height b p = 0)
   \<and> (\<forall>p. 0 \<le> calculate_water_height b p)"
proof (intro conjI allI impI)
  fix p1 p2 :: real
  assume "p1 \<le> p2"
  then show "calculate_water_height b p1 \<le> calculate_water_height b p2"
    using density_gravity_pos
    by (simp add: calculate_water_height_alt divide_le_cancel zero_le_divide_iff)
next
  fix p :: real
  assume "p \<le> b"
  then show "calculate_water_height b p = 0"
    by (simp add: calculate_water_height_alt)
next
  fix p :: real
  show "0 \<le> calculate_water_height b p"
    by (rule calculate_water_height_nonneg)
qed

theorem calculate_water_height_mono_clamped_witness:
  "calculate_water_height 1000 1001 \<le> calculate_water_height 1000 1002
   \<and> calculate_water_height 1000 999 = 0"
  using calculate_water_height_mono_clamped [of 1000] by simp

text \<open>
  Claim C7. With the baseline 1013.25 hPa, \<open>calculate_water_height\<close> returns exactly 0
  for the pressure 1013.25; for the pressure 1023.25, a difference of 10 hPa, it
  returns \<open>10 * 100 / (997 * 9.81)\<close> metres in centimetres, which is 10.2243... and
  so within 0.01 of the 10.23 cm that the scenario names.
\<close>

theorem calculate_water_height_scenario:
  "calculate_water_height 1013.25 1013.25 = 0
   \<and> calculate_water_height 1013.25 1023.25 = 10 * 100 / (997 * 9.81) * 100
   \<and> \<bar>calculate_water_height 1013.25 1023.25 - 10.23\<bar> < 0.01
   \<and> 10.2243 < calculate_water_height 1013.25 1023.25
   \<and> calculate_water_height 1013.25 1023.25 < 10.2244"
  by (simp add: calculate_water_height_def WATER_DENSITY_def GRAVITY_FORCE_def)

subsection \<open>The data store\<close>

lemma py_index_from_end:
  "k < length xs \<Longrightarrow> py_index xs (- (int k + 1)) = Some (rev xs ! k)"
  by (auto simp: py_index_def rev_nth nat_diff_distrib' intro!: arg_cong[where f="(!) xs"])

lemma py_index_from_end_none:
  "length xs \<le> k \<Longrightarrow> py_index xs (- (int k + 1)) = None"
  by (auto simp: py_index_def)

lemma py_index_list_update:
  "py_index xs i = Some v \<Longrightarrow> py_index (xs[py_pos xs i := w]) i = Some w"
  by (auto simp: py_index_def py_pos_def split: if_splits)

lemma py_index_replicate:
  "- int n \<le> i \<Longrightarrow> i < int n \<Longrightarrow> py_index (replicate n v) i = Some v"
  by (auto simp: py_index_def)

lemma within_last_x_loop_takeWhile:
  assumes "length xs = length ys" and "k \<le> length xs"
  shows "within_last_x_loop xs ys m (int k + 1) ax ay =
           (ax @ map fst (takeWhile (\<lambda>p. \<not> fst p < m) (drop k (rev (zip xs ys)))),
            ay @ map snd (takeWhile (\<lambda>p. \<not> fst p < m) (drop k (rev (zip xs ys)))))"
  using assms
proof (induction "length xs - k" arbitrary: k ax ay)
  case 0
  then have "length xs \<le> k" by simp
  then have none: "py_index xs (- (int k + 1)) = None"
    by (rule py_index_from_end_none)
  have dr0: "drop k (rev (zip xs ys)) = []"
    using 0 by simp
  show ?case
    by (subst within_last_x_loop.simps)
       (simp only: none dr0 option.case takeWhile.simps list.map append_Nil2)
next
  case (Suc d)
  then have k: "k < length xs" "k < length ys" by simp_all
  have d: "d = length xs - Suc k" using Suc.hyps by simp
  have sx: "py_index xs (- (int k + 1)) = Some (rev xs ! k)"
    and sy: "py_index ys (- (int k + 1)) = Some (rev ys ! k)"
    using k by (simp_all only: py_index_from_end)
  have zl: "k < length (rev (zip xs ys))" using k by simp
  have nth: "rev (zip xs ys) ! k = (rev xs ! k, rev ys ! k)"
    using Suc.prems k by (simp add: zip_rev [symmetric])
  have dr: "drop k (rev (zip xs ys)) = (rev xs ! k, rev ys ! k) # drop (Suc k) (rev (zip xs ys))"
    using Cons_nth_drop_Suc [OF zl] nth by simp
  have eq: "int k + 1 + 1 = int (Suc k) + 1" by simp
  have ih: "within_last_x_loop xs ys m (int k + 1 + 1) ax' ay' =
           (ax' @ map fst (takeWhile (\<lambda>p. \<not> fst p < m) (drop (Suc k) (rev (zip xs ys)))),
            ay' @ map snd (takeWhile (\<lambda>p. \<not> fst p < m) (drop (Suc k) (rev (zip xs ys)))))"
    for ax' ay'
    unfolding eq using Suc.hyps(1) [OF d Suc.prems(1)] k by simp
  show ?case
    apply (subst within_last_x_loop.simps)
    apply (simp only: sx sy option.case ih dr)
    apply simp
    done
qed

lemma takeWhile_rev_sorted:
  assumes "sorted (map fst zs)"
  shows "takeWhile (\<lambda>p. \<not> fst p < (m::real)) (rev zs) = rev (filter (\<lambda>p. m \<le> fst p) zs)"
  using assms
proof (induction zs rule: rev_induct)
  case Nil
  then show ?case by simp
next
  case (snoc z zs)
  then have s: "sorted (map fst zs)" and le: "\<forall>p\<in>set zs. fst p \<le> fst z"
    by (auto simp: sorted_append)
  show ?case
  proof (cases "fst z < m")
    case True
    with le have "filter (\<lambda>p. m \<le> fst p) zs = []"
      by (auto simp: filter_empty_conv)
    with True show ?thesis by simp
  next
    case False
    with snoc.IH [OF s] show ?thesis by (simp add: not_less)
  qed
qed

lemma add_data_point_lists:
  assumes "py_index (x_points g) i = Some xs" and "py_index (y_points g) i = Some ys"
  shows "py_index (x_points (add_data_point g i x y)) i = Some (xs @ [x])"
    and "py_index (y_points (add_data_point g i x y)) i = Some (ys @ [y])"
    and "axes_list (add_data_point g i x y) = axes_list g"
  using assms by (simp_all add: add_data_point_def py_index_list_update)

lemma add_data_points_lists:
  assumes "py_index (x_points g) i = Some xs" and "py_index (y_points g) i = Some ys"
  shows "py_index (x_points (add_data_points g i samples)) i = Some (xs @ map fst samples)
       \<and> py_index (y_points (add_data_points g i samples)) i = Some (ys @ map snd samples)
       \<and> axes_list (add_data_points g i samples) = axes_list g"
  using assms
proof (induction samples arbitrary: g xs ys)
  case Nil
  then show ?case by simp
next
  case (Cons p samples)
  obtain x y where p: "p = (x, y)" by (cases p)
  show ?case
    using Cons.IH [OF add_data_point_lists(1,2) [OF Cons.prems, of x y]]
          add_data_point_lists(3) [OF Cons.prems, of x y]
    by (simp add: p)
qed

lemma window_of_lists:
  assumes "get_subplot g i \<noteq> None"
    and "py_index (x_points g) i = Some xs" and "py_index (y_points g) i = Some ys"
    and "length xs = length ys" and "sorted xs"
  shows "get_data_within_last_x g i t =
           Inr (Some (rev (map fst (filter (\<lambda>p. t \<le> fst p) (zip xs ys))),
                      rev (map snd (filter (\<lambda>p. t \<le> fst p) (zip xs ys)))))"
proof -
  have "sorted (map fst (zip xs ys))" using assms(4,5) by simp
  from takeWhile_rev_sorted [OF this, of t]
  show ?thesis
    using assms within_last_x_loop_takeWhile [of xs ys 0 t "[]" "[]"]
    by (auto simp: get_data_within_last_x_def rev_map)
qed

text \<open>
  Claim C1, as the code has it. For every sequence of samples with non-decreasing
  timestamps appended to a subplot of a fresh figure, and every cutoff \<open>t\<close>,
  \<open>get_data_within_last_x\<close> returns exactly the samples with timestamp \<open>\<ge> t\<close>, the
  most recent first (the reverse of the order of appending); a cutoff newer than all
  samples yields two empty lists.
\<close>

theorem get_data_within_last_x_newest_first:
  assumes "sorted (map fst samples)" and "- int n \<le> i" and "i < int n"
  shows "get_data_within_last_x (add_data_points (new_graph n) i samples) i t =
           Inr (Some (rev (map fst (filter (\<lambda>p. t \<le> fst p) samples)),
                      rev (map snd (filter (\<lambda>p. t \<le> fst p) samples))))
         \<and> ((\<forall>p\<in>set samples. fst p < t) \<longrightarrow>
              get_data_within_last_x (add_data_points (new_graph n) i samples) i t
                = Inr (Some ([], [])))"
proof -
  let ?g = "add_data_points (new_graph n) i samples"
  have x0: "py_index (x_points (new_graph n)) i = Some []"
    and y0: "py_index (y_points (new_graph n)) i = Some []"
    using assms(2,3) by (simp_all add: new_graph_def py_index_replicate)
  from add_data_points_lists [OF x0 y0, of samples]
  have xs: "py_index (x_points ?g) i = Some (map fst samples)"
    and ys: "py_index (y_points ?g) i = Some (map snd samples)"
    and ax: "axes_list ?g = replicate n ()"
    by (simp_all add: new_graph_def)
  have sub: "get_subplot ?g i \<noteq> None"
    using assms(2,3) by (simp add: get_subplot_def ax py_index_replicate)
  have z: "zip (map fst samples) (map snd samples) = samples"
    by (simp add: zip_map_fst_snd)
  have main: "get_data_within_last_x ?g i t =
           Inr (Some (rev (map fst (filter (\<lambda>p. t \<le> fst p) samples)),
                      rev (map snd (filter (\<lambda>p. t \<le> fst p) samples))))"
    using window_of_lists [OF sub xs ys _ assms(1), of t] by (simp add: z)
  have "(\<forall>p\<in>set samples. fst p < t) \<Longrightarrow> filter (\<lambda>p. t \<le> fst p) samples = []"
    by (auto simp: filter_empty_conv)
  with main show ?thesis by auto
qed

theorem get_data_within_last_x_newest_first_witness:
  "sorted (map fst [(1, 10), (2, 20), (3, 30::real)] :: real list)
   \<and> get_data_within_last_x (add_data_points (new_graph 2) 0 [(1, 10), (2, 20), (3, 30)]) 0 2
       = Inr (Some ([3, 2], [30, 20]))
   \<and> fst (1::real, 10::real) < 5 \<and> fst (2::real, 20::real) < 5
   \<and> get_data_within_last_x (add_data_points (new_graph 2) 1 [(1, 10), (2, 20)]) 1 5
       = Inr (Some ([], []))"
  using get_data_within_last_x_newest_first [of "[(1, 10), (2, 20), (3, 30)]" 2 0 2]
        get_data_within_last_x_newest_first [of "[(1, 10), (2, 20)]" 2 1 5]
  by simp

text \<open>
  Claim C1 as stated fails: the window of two samples comes back newest first, not in
  the order of appending.
\<close>

theorem get_data_within_last_x_chronological_counterexample:
  "get_data_within_last_x (add_data_points (new_graph 2) 0 [(1, 10), (2, 20)]) 0 0
     = Inr (Some ([2, 1], [20, 10]))
   \<and> get_data_within_last_x (add_data_points (new_graph 2) 0 [(1, 10), (2, 20)]) 0 0
     \<noteq> Inr (Some ([1, 2], [10, 20]))"
  by (simp add: get_data_within_last_x_def get_subplot_def new_graph_def add_data_point_def
        py_index_def py_pos_def numeral_2_eq_2)

text \<open>
  Claim C3, as the code has it. \<open>add_data_point\<close> checks no order: on a subplot that
  exists it appends the sample to both lists whatever its timestamp, and on a subplot
  index out of range it returns the figure unchanged. It has no failing outcome.
\<close>

theorem add_data_point_appends_unchecked:
  "(py_index (x_points g) i = Some xs \<and> py_index (y_points g) i = Some ys \<longrightarrow>
      py_index (x_points (add_data_point g i x y)) i = Some (xs @ [x])
      \<and> py_index (y_points (add_data_point g i x y)) i = Some (ys @ [y]))
   \<and> (py_index (x_points g) i = None \<or> py_index (y_points g) i = None \<longrightarrow>
        add_data_point g i x y = g)"
  by (auto simp: add_data_point_lists) (auto simp: add_data_point_def split: option.splits)

theorem add_data_point_appends_unchecked_witness:
  "py_index (x_points (add_data_points (new_graph 2) 0 [(5, 1)])) 0 = Some [5]
   \<and> py_index (y_points (add_data_points (new_graph 2) 0 [(5, 1)])) 0 = Some [1]
   \<and> py_index (x_points (add_data_point (add_data_points (new_graph 2) 0 [(5, 1)]) 0 3 7)) 0
       = Some [5, 3]
   \<and> py_index (y_points (add_data_point (add_data_points (new_graph 2) 0 [(5, 1)]) 0 3 7)) 0
       = Some [1, 7]
   \<and> py_index (x_points (new_graph 2)) 2 = None
   \<and> add_data_point (new_graph 2) 2 3 7 = new_graph 2"
  using add_data_point_appends_unchecked
          [of "add_data_points (new_graph 2) 0 [(5, 1)]" 0 "[5]" "[1]" 3 7]
        add_data_point_appends_unchecked [of "new_graph 2" 2 "[]" "[]" 3 7]
  by (simp add: new_graph_def add_data_point_def py_index_def py_pos_def numeral_2_eq_2)

text \<open>
  Claim C3 as stated fails: a sample with timestamp 3 appended after one with
  timestamp 5 is stored, and the buffer changes.
\<close>

theorem add_data_point_ordering_counterexample:
  "x_points (add_data_point (add_data_points (new_graph 2) 0 [(5, 1)]) 0 3 7) = [[5, 3], []]
   \<and> y_points (add_data_point (add_data_points (new_graph 2) 0 [(5, 1)]) 0 3 7) = [[1, 7], []]
   \<and> add_data_point (add_data_points (new_graph 2) 0 [(5, 1)]) 0 3 7
       \<noteq> add_data_points (new_graph 2) 0 [(5, 1)]"
  by (simp add: new_graph_def add_data_point_def py_index_def py_pos_def numeral_2_eq_2)

subsection \<open>Statistics and colours\<close>

lemma get_number_color_cases:
  "get_number_color number mx \<in> Inr ` {''#E4FDE1'', ''#FB363A'', ''#F97E36'', ''#E8E055'', ''#41D3BD''}"
  by (simp add: get_number_color_def py_div_def)

lemma get_number_color_not_Inl: "get_number_color number mx \<noteq> Inl e"
  by (simp add: get_number_color_def py_div_def)

lemma water_height_statistics_waves:
  assumes "standing_water_level s = Some level"
  shows "\<exists>st. water_height_statistics s (y0 # rest) = Inr st
           \<and> max_wave_height st = Some (max 0 (Max (set (y0 # rest)) - level))
           \<and> current_wave_height st = Some (max 0 (y0 - level))"
proof -
  define M where "M = Max (set (y0 # rest))"
  have mx: "fold max rest y0 = M"
    unfolding M_def by (rule Max.set_eq_fold [symmetric])
  have "\<exists>st. water_height_statistics s (y0 # rest) = Inr st
           \<and> max_wave_height st = Some (max 0 (M - level))
           \<and> current_wave_height st = Some (max 0 (y0 - level))"
    unfolding water_height_statistics_def list.case Let_def mx
    using assms
    by (auto simp: max_def get_number_color_not_Inl split: option.splits sum.splits)
  then show ?thesis unfolding M_def .
qed

text \<open>
  Claim C9. \<open>get_number_color\<close> is total: for every number and every threshold it
  returns a colour and never the ZeroDivisionError of the ratio; for a threshold of
  exactly 0 it returns the default colour before the ratio is computed.
\<close>

theorem get_number_color_total:
  "(\<exists>c. get_number_color number mx = Inr c)
   \<and> get_number_color number 0 = Inr ''#E4FDE1''
   \<and> get_number_color number mx \<noteq> Inl ZeroDivisionError"
  by (simp add: get_number_color_def py_div_def)

text \<open>
  Claim C10. For every non-empty water-height window \<open>y0 # rest\<close> and a calibrated
  standing water level, \<open>update_statistics\<close> computes the peak wave height as the
  maximum of the window minus the standing level and the current wave height as the
  first (most recent) value of the window minus the standing level, each clamped to a
  minimum of 0, so neither is negative.
\<close>

theorem update_statistics_wave_heights_clamped:
  assumes "unpack_window
             (get_data_within_last_x (graph s) 0 (now - real_of_int (data_period_var s)))
           = Inr (pressure_xs, pressure_ys)"
    and "unpack_window
             (get_data_within_last_x (graph s) 1 (now - real_of_int (data_period_var s)))
           = Inr (water_height_xs, y0 # rest)"
    and "standing_water_level s = Some level"
  shows "\<exists>st. update_statistics s now = Inr st
           \<and> max_wave_height st = Some (max 0 (Max (set (y0 # rest)) - level))
           \<and> current_wave_height st = Some (max 0 (y0 - level))
           \<and> (\<forall>v. max_wave_height st = Some v \<or> current_wave_height st = Some v \<longrightarrow> 0 \<le> v)"
proof -
  from water_height_statistics_waves [OF assms(3), of y0 rest]
  obtain st where st: "water_height_statistics s (y0 # rest) = Inr st"
    "max_wave_height st = Some (max 0 (Max (set (y0 # rest)) - level))"
    "current_wave_height st = Some (max 0 (y0 - level))"
    by blast
  have "update_statistics s now = Inr st"
    using assms(1,2) st(1) by (simp add: update_statistics_def)
  with st(2,3) show ?thesis by auto
qed

theorem update_statistics_wave_heights_clamped_witness:
  "unpack_window
     (get_data_within_last_x
        (graph (init_dashboard
           \<lparr>graph := add_data_points (add_data_points (new_graph 2) 0 [(1, 1001), (2, 1002)])
                       1 [(1, 12), (2, 3)],
            standing_water_level := Some 5\<rparr>))
        1 (3 - real_of_int 15))
     = Inr ([2, 1], [3, 12])
   \<and> (\<exists>st. update_statistics
              (init_dashboard
                 \<lparr>graph := add_data_points
                             (add_data_points (new_graph 2) 0 [(1, 1001), (2, 1002)])
                             1 [(1, 12), (2, 3)],
                  standing_water_level := Some 5\<rparr>) 3 = Inr st
           \<and> max_wave_height st = Some 7 \<and> current_wave_height st = Some 0)"
proof -
  let ?s = "init_dashboard
              \<lparr>graph := add_data_points (add_data_points (new_graph 2) 0 [(1, 1001), (2, 1002)])
                          1 [(1, 12), (2, 3)],
               standing_water_level := Some 5\<rparr>"
  have period: "data_period_var ?s = 15"
    by (simp add: init_dashboard_def)
  have w0: "unpack_window (get_data_within_last_x (graph ?s) 0 (3 - real_of_int (data_period_var ?s)))
              = Inr ([2, 1], [1002, 1001])"
    unfolding period
    by (simp add: unpack_window_def get_data_within_last_x_def get_subplot_def new_graph_def
          add_data_point_def py_index_def py_pos_def numeral_2_eq_2)
  have w1: "unpack_window (get_data_within_last_x (graph ?s) 1 (3 - real_of_int (data_period_var ?s)))
              = Inr ([2, 1], [3, 12])"
    unfolding period
    by (simp add: unpack_window_def get_data_within_last_x_def get_subplot_def new_graph_def
          add_data_point_def py_index_def py_pos_def numeral_2_eq_2)
  have lv: "standing_water_level ?s = Some 5"
    by simp
  from update_statistics_wave_heights_clamped [OF w0 w1 lv]
  obtain st where st: "update_statistics ?s 3 = Inr st"
    and "max_wave_height st = Some (max 0 (Max (set [3, 12]) - 5))"
    and "current_wave_height st = Some (max 0 (3 - 5))"
    by blast
  then have "max_wave_height st = Some 7" and "current_wave_height st = Some 0"
    by simp_all
  with st have "\<exists>st. update_statistics ?s 3 = Inr st
      \<and> max_wave_height st = Some 7 \<and> current_wave_height st = Some 0"
    by blast
  with w1 [unfolded period] show ?thesis
    by (intro conjI)
qed

subsection \<open>The alarm threshold\<close>

lemma set_alarm_threshold_accepts_iff:
  "(alarm_threshold (set_alarm_threshold s entered) = entered \<and> entered \<noteq> None
      \<and> status_var (set_alarm_threshold s entered) = ThresholdSetTo (the entered))
   = (standing_water_level s \<noteq> None \<and> (\<exists>v. entered = Some v \<and> 0 \<le> v))"
  by (auto simp: set_alarm_threshold_def split: option.splits)

lemma set_alarm_threshold_rejects:
  "standing_water_level s = None \<or> entered = None \<or> (\<exists>v. entered = Some v \<and> v < 0)
   \<Longrightarrow> alarm_threshold (set_alarm_threshold s entered) = alarm_threshold s"
  by (auto simp: set_alarm_threshold_def split: option.splits)

text \<open>
  Claim C4 at the input the code gets wrong: with the standing water level calibrated,
  the entry \<^verbatim>\<open>0\<close>, which \<^verbatim>\<open>float\<close> parses to 0.0, passes the check \<^verbatim>\<open>alarm_threshold < 0\<close>
  and is stored as the alarm threshold, although it is not greater than 0.
\<close>

theorem set_alarm_threshold_accepts_zero:
  "alarm_threshold (set_alarm_threshold (init_dashboard\<lparr>standing_water_level := Some 5\<rparr>) (Some 0))
     = Some 0
   \<and> status_var (set_alarm_threshold (init_dashboard\<lparr>standing_water_level := Some 5\<rparr>) (Some 0))
     = ThresholdSetTo 0
   \<and> alarm_status (set_alarm_threshold (init_dashboard\<lparr>standing_water_level := Some 5\<rparr>) (Some 0))
     = Ready"
  by (simp add: set_alarm_threshold_def init_dashboard_def)

subsection \<open>The alarm latch\<close>

lemma new_pressure_data_calibration:
  "calibrated_air_pressure (new_pressure_data s now p) = calibrated_air_pressure s"
  "standing_water_level (new_pressure_data s now p) = standing_water_level s"
  "alarm_threshold (new_pressure_data s now p) = alarm_threshold s"
  by (simp_all add: new_pressure_data_def Let_def split: option.splits)

lemma new_pressure_data_latched:
  assumes "alarm_sent s"
  shows "alarm_sent (new_pressure_data s now p)"
    and "alarms_dispatched (new_pressure_data s now p) = alarms_dispatched s"
    and "pressure_on_alarm_activate (new_pressure_data s now p) = pressure_on_alarm_activate s"
    and "wave_height_on_alarm_activate (new_pressure_data s now p)
           = wave_height_on_alarm_activate s"
  using assms by (simp_all add: new_pressure_data_def Let_def split: option.splits)

lemma new_pressure_data_ready:
  assumes "calibrated_air_pressure s = Some air" and "standing_water_level s = Some level"
    and "alarm_threshold s = Some threshold" and "alarm_sent s = False"
  shows "alarm_sent (new_pressure_data s now p)
           = (calculate_water_height air p - level > threshold)"
    and "alarms_dispatched (new_pressure_data s now p)
           = alarms_dispatched s
             + (if calculate_water_height air p - level > threshold then 1 else 0)"
    and "calculate_water_height air p - level > threshold \<Longrightarrow>
           pressure_on_alarm_activate (new_pressure_data s now p) = Some p
           \<and> wave_height_on_alarm_activate (new_pressure_data s now p)
               = Some (calculate_water_height air p - level)"
  using assms by (simp_all add: new_pressure_data_def Let_def)

lemma feed_calibration:
  "calibrated_air_pressure (feed s samples) = calibrated_air_pressure s
   \<and> standing_water_level (feed s samples) = standing_water_level s
   \<and> alarm_threshold (feed s samples) = alarm_threshold s"
  by (induction s samples rule: feed.induct) (simp_all add: new_pressure_data_calibration)

lemma feed_latched:
  "alarm_sent s \<Longrightarrow>
     alarm_sent (feed s samples)
     \<and> alarms_dispatched (feed s samples) = alarms_dispatched s
     \<and> pressure_on_alarm_activate (feed s samples) = pressure_on_alarm_activate s
     \<and> wave_height_on_alarm_activate (feed s samples) = wave_height_on_alarm_activate s"
  by (induction s samples rule: feed.induct) (simp_all add: new_pressure_data_latched)

lemma feed_ready:
  assumes "calibrated_air_pressure s = Some air" and "standing_water_level s = Some level"
    and "alarm_threshold s = Some threshold" and "alarm_sent s = False"
  shows "alarm_sent (feed s samples)
           = (\<exists>q\<in>set samples. calculate_water_height air (snd q) - level > threshold)
     \<and> alarms_dispatched (feed s samples)
           = alarms_dispatched s
             + (if \<exists>q\<in>set samples. calculate_water_height air (snd q) - level > threshold
                then 1 else 0)
     \<and> (\<forall>q. find (\<lambda>q. calculate_water_height air (snd q) - level > threshold) samples = Some q
          \<longrightarrow> pressure_on_alarm_activate (feed s samples) = Some (snd q)
              \<and> wave_height_on_alarm_activate (feed s samples)
                  = Some (calculate_water_height air (snd q) - level))"
  using assms
proof (induction s samples rule: feed.induct)
  case (1 s)
  then show ?case by simp
next
  case (2 s now p samples)
  let ?s' = "new_pressure_data s now p"
  note rdy = new_pressure_data_ready [OF "2.prems", where now = now and p = p]
  show ?case
  proof (cases "calculate_water_height air p - level > threshold")
    case True
    with rdy have "alarm_sent ?s'" by simp
    from feed_latched [OF this, of samples] rdy True show ?thesis by simp
  next
    case False
    with rdy have ns: "alarm_sent ?s' = False" by simp
    from "2.IH" [OF _ _ _ ns] "2.prems" rdy False show ?thesis
      by (simp add: new_pressure_data_calibration)
  qed
qed

lemma reset_alarm_fields:
  "alarm_sent (reset_alarm s) = False"
  "alarm_cooldown (reset_alarm s) = False"
  "pressure_on_alarm_activate (reset_alarm s) = None"
  "wave_height_on_alarm_activate (reset_alarm s) = None"
  "alarms_dispatched (reset_alarm s) = alarms_dispatched s"
  "calibrated_air_pressure (reset_alarm s) = calibrated_air_pressure s"
  "standing_water_level (reset_alarm s) = standing_water_level s"
  "alarm_threshold (reset_alarm s) = alarm_threshold s"
  by (simp_all add: reset_alarm_def)

text \<open>
  Claim C2. From the ready state (air pressure and standing level calibrated, threshold
  set, latch open), feeding any sequence of samples latches the alarm exactly when some
  sample's wave height exceeds the threshold, dispatches exactly one alarm in that case
  however many samples breach, and captures the pressure and wave height of the first
  breaching sample; \<open>reset_alarm\<close> opens the latch and clears the snapshot, after which
  a further sequence of samples dispatches exactly one more alarm if it breaches.
\<close>

theorem alarm_one_shot_latch:
  assumes "calibrated_air_pressure s = Some air" and "standing_water_level s = Some level"
    and "alarm_threshold s = Some threshold" and "alarm_sent s = False"
  shows "alarm_sent (feed s samples)
           = (\<exists>q\<in>set samples. calculate_water_height air (snd q) - level > threshold)
     \<and> alarms_dispatched (feed s samples)
           = alarms_dispatched s
             + (if \<exists>q\<in>set samples. calculate_water_height air (snd q) - level > threshold
                then 1 else 0)
     \<and> (\<forall>q. find (\<lambda>q. calculate_water_height air (snd q) - level > threshold) samples = Some q
          \<longrightarrow> pressure_on_alarm_activate (feed s samples) = Some (snd q)
              \<and> wave_height_on_alarm_activate (feed s samples)
                  = Some (calculate_water_height air (snd q) - level))
     \<and> alarm_sent (reset_alarm (feed s samples)) = False
     \<and> pressure_on_alarm_activate (reset_alarm (feed s samples)) = None
     \<and> wave_height_on_alarm_activate (reset_alarm (feed s samples)) = None
     \<and> alarms_dispatched (feed (reset_alarm (feed s samples)) later)
           = alarms_dispatched s
             + (if \<exists>q\<in>set samples. calculate_water_height air (snd q) - level > threshold
                then 1 else 0)
             + (if \<exists>q\<in>set later. calculate_water_height air (snd q) - level > threshold
                then 1 else 0)"
proof -
  note first = feed_ready [OF assms, of samples]
  let ?r = "reset_alarm (feed s samples)"
  have r: "calibrated_air_pressure ?r = Some air" "standing_water_level ?r = Some level"
    "alarm_threshold ?r = Some threshold" "alarm_sent ?r = False"
    using assms by (simp_all add: reset_alarm_fields feed_calibration)
  note second = feed_ready [OF r, of later]
  have cleared: "alarm_sent ?r = False \<and> pressure_on_alarm_activate ?r = None
         \<and> wave_height_on_alarm_activate ?r = None"
    by (simp add: reset_alarm_fields)
  have total: "alarms_dispatched (feed ?r later)
           = alarms_dispatched s
             + (if \<exists>q\<in>set samples. calculate_water_height air (snd q) - level > threshold
                then 1 else 0)
             + (if \<exists>q\<in>set later. calculate_water_height air (snd q) - level > threshold
                then 1 else 0)"
    using second first by (simp add: reset_alarm_fields)
  from first cleared total show ?thesis by blast
qed

theorem alarm_one_shot_latch_witness:
  "alarm_sent (init_dashboard\<lparr>calibrated_air_pressure := Some 1000,
                 standing_water_level := Some 5, alarm_threshold := Some 20\<rparr>) = False
   \<and> alarms_dispatched
        (feed (init_dashboard\<lparr>calibrated_air_pressure := Some 1000,
                 standing_water_level := Some 5, alarm_threshold := Some 20\<rparr>)
           [(1, 1010), (2, 1025.429482), (3, 1050)]) = 1
   \<and> pressure_on_alarm_activate
        (feed (init_dashboard\<lparr>calibrated_air_pressure := Some 1000,
                 standing_water_level := Some 5, alarm_threshold := Some 20\<rparr>)
           [(1, 1010), (2, 1025.429482), (3, 1050)]) = Some 1025.429482
   \<and> wave_height_on_alarm_activate
        (feed (init_dashboard\<lparr>calibrated_air_pressure := Some 1000,
                 standing_water_level := Some 5, alarm_threshold := Some 20\<rparr>)
           [(1, 1010), (2, 1025.429482), (3, 1050)]) = Some 21
   \<and> alarms_dispatched
        (feed (reset_alarm
                 (feed (init_dashboard\<lparr>calibrated_air_pressure := Some 1000,
                          standing_water_level := Some 5, alarm_threshold := Some 20\<rparr>)
                    [(1, 1010), (2, 1025.429482), (3, 1050)]))
           [(4, 1060), (5, 1070)]) = 2"
proof -
  let ?s = "init_dashboard\<lparr>calibrated_air_pressure := Some 1000,
              standing_water_level := Some 5, alarm_threshold := Some 20\<rparr>"
  have h: "calibrated_air_pressure ?s = Some 1000" "standing_water_level ?s = Some 5"
    "alarm_threshold ?s = Some 20" "alarm_sent ?s = False"
    "alarms_dispatched ?s = 0"
    by (simp_all add: init_dashboard_def)
  from alarm_one_shot_latch [OF h(1-4),
         of "[(1, 1010), (2, 1025.429482), (3, 1050)]" "[(4, 1060), (5, 1070)]"] h(4,5)
  show ?thesis
    by (simp add: calculate_water_height_def WATER_DENSITY_def GRAVITY_FORCE_def)
qed

subsection \<open>The snapshot and the latch\<close>

lemma snapshot_new_pressure_data:
  assumes "alarm_sent s \<longrightarrow>
           pressure_on_alarm_activate s \<noteq> None \<and> wave_height_on_alarm_activate s \<noteq> None"
  shows "alarm_sent (new_pressure_data s now p) \<longrightarrow>
           pressure_on_alarm_activate (new_pressure_data s now p) \<noteq> None
           \<and> wave_height_on_alarm_activate (new_pressure_data s now p) \<noteq> None"
  using assms by (auto simp: new_pressure_data_def Let_def split: option.splits)

lemma snapshot_feed:
  assumes "alarm_sent s \<longrightarrow>
           pressure_on_alarm_activate s \<noteq> None \<and> wave_height_on_alarm_activate s \<noteq> None"
  shows "alarm_sent (feed s samples) \<longrightarrow>
           pressure_on_alarm_activate (feed s samples) \<noteq> None
           \<and> wave_height_on_alarm_activate (feed s samples) \<noteq> None"
  using assms
proof (induction s samples rule: feed.induct)
  case (1 s)
  then show ?case by simp
next
  case (2 s now p samples)
  from "2.IH" [OF snapshot_new_pressure_data [OF "2.prems"]] show ?case by simp
qed

lemma reset_alarm_interleaved_whole: "reset_alarm_interleaved s [] [] [] = reset_alarm s"
  by (simp add: reset_alarm_interleaved_def reset_alarm_def Let_def)

text \<open>
  The race in general: a breaching sample delivered right after \<^verbatim>\<open>alarm_sent = False\<close>
  sets the latch again and stores its snapshot, and the rest of \<open>reset_alarm\<close> then
  clears the snapshot and the cooldown but not the latch.
\<close>

lemma reset_alarm_interleaved_relatch:
  assumes "calibrated_air_pressure s = Some air" and "standing_water_level s = Some level"
    and "alarm_threshold s = Some threshold"
    and "calculate_water_height air p - level > threshold"
  shows "alarm_sent (reset_alarm_interleaved s [(now, p)] [] [])
       \<and> alarm_cooldown (reset_alarm_interleaved s [(now, p)] [] []) = False
       \<and> pressure_on_alarm_activate (reset_alarm_interleaved s [(now, p)] [] []) = None
       \<and> wave_height_on_alarm_activate (reset_alarm_interleaved s [(now, p)] [] []) = None"
  using assms by (simp add: reset_alarm_interleaved_def new_pressure_data_def Let_def)


subsection \<open>Calibration without data\<close>

lemma calibrate_air_pressure_no_points:
  "air_pressure_loop (graph s) now len 1 [] = [] \<Longrightarrow>
   calibrate_air_pressure s now len = s\<lparr>status_var := AirPressureLackOfData\<rparr>"
  by (simp add: calibrate_air_pressure_def py_mean_def)

lemma calibrate_swh_empty_height_window:
  assumes "unpack_window (get_data_within_last_x (graph s) 0 (now - len)) = Inr (xs, ps)"
    and "unpack_window (get_data_within_last_x (graph s) 1 (now - len)) = Inr (ws, [])"
  shows "calibrate_swh s now len = Inr (s\<lparr>status_var := StandingHeightLackOfData\<rparr>)"
  unfolding calibrate_swh_def assms by (simp add: py_mean_def)

text \<open>
  The order of the two assignments in the \<^verbatim>\<open>try\<close> block: with a water-height window
  that is not empty and an empty pressure window, the standing water level is assigned
  before the second mean raises.
\<close>

lemma calibrate_swh_half_update:
  assumes "unpack_window (get_data_within_last_x (graph s) 0 (now - len)) = Inr (xs, [])"
    and "unpack_window (get_data_within_last_x (graph s) 1 (now - len)) = Inr (ws, h # hs)"
  shows "calibrate_swh s now len =
           Inr (s\<lparr>standing_water_level := Some (sum_list (h # hs) / real (length (h # hs))),
                  status_var := StandingHeightLackOfData\<rparr>)"
  unfolding calibrate_swh_def assms by (simp add: py_mean_def Let_def)

lemma calibrate_swh_interleaved_whole:
  "calibrate_swh_interleaved s now len [] [] [] = calibrate_swh s now len"
  by (simp add: calibrate_swh_interleaved_def calibrate_swh_def Let_def
        del: within_last_x_loop.simps split: sum.splits prod.splits)

text \<open>
  Claim C6 at the schedule the code gets wrong. The air pressure and the standing water
  level are calibrated. A second \<open>calibrate_swh\<close> at time 100 finds the pressure window
  of the last 5 seconds empty; the sample \<open>(100.01, 1003)\<close> arrives before the window
  query of the water-height subplot, which therefore is not empty. The calibration
  reports the lack of data, and yet the standing water level has changed from
  \<open>10000 / 9780.57\<close> to \<open>30000 / 9780.57\<close>.
\<close>

theorem calibrate_swh_lack_of_data_changes_level:
  "standing_water_level (projr (run init_dashboard
            [NewPressure 1 1000, CalibrateAirPressure 2 5, NewPressure 3 1001,
             CalibrateSwh 4 5 [] [] []])) = Some (10000 / 9780.57)
   \<and> get_data_within_last_x (graph (projr (run init_dashboard
            [NewPressure 1 1000, CalibrateAirPressure 2 5, NewPressure 3 1001,
             CalibrateSwh 4 5 [] [] []]))) 0 (100 - 5) = Inr (Some ([], []))
   \<and> \<not> isl (run init_dashboard
            [NewPressure 1 1000, CalibrateAirPressure 2 5, NewPressure 3 1001,
             CalibrateSwh 4 5 [] [] [], CalibrateSwh 100 5 [(100.01, 1003)] [] []])
   \<and> status_var (projr (run init_dashboard
            [NewPressure 1 1000, CalibrateAirPressure 2 5, NewPressure 3 1001,
             CalibrateSwh 4 5 [] [] [], CalibrateSwh 100 5 [(100.01, 1003)] [] []])) = StandingHeightLackOfData
   \<and> standing_water_level (projr (run init_dashboard
            [NewPressure 1 1000, CalibrateAirPressure 2 5, NewPressure 3 1001,
             CalibrateSwh 4 5 [] [] [], CalibrateSwh 100 5 [(100.01, 1003)] [] []])) = Some (30000 / 9780.57)
   \<and> standing_water_air_pressure (projr (run init_dashboard
            [NewPressure 1 1000, CalibrateAirPressure 2 5, NewPressure 3 1001,
             CalibrateSwh 4 5 [] [] [], CalibrateSwh 100 5 [(100.01, 1003)] [] []])) = Some 1000.5"
  by (simp add: init_dashboard_def new_graph_def numeral_2_eq_2 new_pressure_data_def
        add_data_point_def py_index_def py_pos_def calibrate_air_pressure_def py_mean_def
        get_data_point_def calibrate_swh_interleaved_def reset_alarm_interleaved_def
        unpack_window_def get_data_within_last_x_def
        get_subplot_def set_alarm_threshold_def mainloop_pass_def update_statistics_def
        water_height_statistics_def get_number_color_def py_div_def window_activate_alarm_def
        calculate_water_height_def WATER_DENSITY_def GRAVITY_FORCE_def Let_def)

end
